theory Spec2Isabelle
  imports Complex_Main "HOL-Library.Word"
begin

section \<open>Machine types\<close>

text \<open>
  The C++ \<open>int\<close> of \<open>TACSElement.h\<close> is a 32-bit two's complement value: \<open>*\<close> on
  \<open>c_int\<close> wraps around and \<open>sint\<close> reads the signed value. \<open>size_t\<close> is the 64-bit
  unsigned type of \<open>sizeof\<close> and of the third argument of \<open>memset\<close>. A pointer is an
  address; one address names one cell (one \<open>TacsScalar\<close> or one \<open>int\<close>), and
  \<open>p + i\<close> is the address of \<open>p[i]\<close>.
\<close>

type_synonym c_int = "32 word"
type_synonym size_t = "64 word"
type_synonym addr = nat

section \<open>The element object\<close>

text \<open>
  \<open>getVarsPerNode\<close> and \<open>getNumNodes\<close> are pure virtual (\<open>= 0\<close>): the base class has
  no body for them, so the values a derived class returns are carried by the object
  as its \<open>formulation\<close>. The two data members are \<open>componentNum\<close> and \<open>fdOrder\<close>.
\<close>

record formulation =
  impl_getVarsPerNode :: c_int
  impl_getNumNodes :: c_int

record TACSElement =
  derived :: formulation
  componentNum :: c_int
  fdOrder :: c_int

text \<open>
  \<open>TACSElement(int _componentNum = 0) { componentNum = _componentNum; }\<close> together with
  the default member initialiser \<open>int fdOrder = 2;\<close>.
\<close>

definition new_TACSElement :: "formulation \<Rightarrow> c_int \<Rightarrow> TACSElement" where
  "new_TACSElement f c = \<lparr>derived = f, componentNum = c, fdOrder = 2\<rparr>"

definition new_TACSElement_default :: "formulation \<Rightarrow> TACSElement" where
  "new_TACSElement_default f = new_TACSElement f 0"

definition setComponentNum :: "TACSElement \<Rightarrow> c_int \<Rightarrow> TACSElement" where
  "setComponentNum e comp_num = e\<lparr>componentNum := comp_num\<rparr>"

definition getComponentNum :: "TACSElement \<Rightarrow> c_int" where
  "getComponentNum e = componentNum e"

definition getVarsPerNode :: "TACSElement \<Rightarrow> c_int" where
  "getVarsPerNode e = impl_getVarsPerNode (derived e)"

definition getNumNodes :: "TACSElement \<Rightarrow> c_int" where
  "getNumNodes e = impl_getNumNodes (derived e)"

definition getNumVariables :: "TACSElement \<Rightarrow> c_int" where
  "getNumVariables e = getNumNodes e * getVarsPerNode e"

text \<open>\<open>virtual int getMultiplierIndex() { return -1; }\<close>\<close>

definition getMultiplierIndex :: "TACSElement \<Rightarrow> c_int" where
  "getMultiplierIndex e = - 1"

section \<open>Caller memory\<close>

text \<open>
  The arrays and output cells belong to the caller and reach the element as pointers.
  The state is the element object with the caller's memory: the \<open>TacsScalar\<close> cells
  and the \<open>int\<close> cells, each a partial map from the allocated addresses. A store
  through a pointer to no allocated cell has no defined outcome in C++; the model
  returns \<open>InvalidWrite\<close> for it. The scalar type is a parameter with a zero
  (\<open>TacsScalar\<close> is declared in \<open>TACSObject.h\<close>); the default bodies only ever
  produce the value zero, which \<open>memset\<close> with byte 0 and the literal \<open>0.0\<close> both give.
\<close>

datatype error = InvalidWrite | PartialScalar

record 's world =
  elem :: TACSElement
  scalars :: "addr \<rightharpoonup> 's"
  ints :: "addr \<rightharpoonup> c_int"

definition store_scalar :: "'s world \<Rightarrow> addr \<Rightarrow> 's \<Rightarrow> error + 's world" where
  "store_scalar w p v =
     (case scalars w p of
        None \<Rightarrow> Inl InvalidWrite
      | Some _ \<Rightarrow> Inr (w\<lparr>scalars := (scalars w)(p \<mapsto> v)\<rparr>))"

definition store_int :: "'s world \<Rightarrow> addr \<Rightarrow> c_int \<Rightarrow> error + 's world" where
  "store_int w p v =
     (case ints w p of
        None \<Rightarrow> Inl InvalidWrite
      | Some _ \<Rightarrow> Inr (w\<lparr>ints := (ints w)(p \<mapsto> v)\<rparr>))"

text \<open>
  \<open>memset(p, 0, nbytes)\<close> on an array of scalars of \<open>sz\<close> bytes each: the cells
  \<open>p[0]\<close>, \<open>p[1]\<close>, ... are zeroed one after the other. A byte count that is not a
  whole number of scalars would zero part of a cell, which the cell memory cannot
  express: \<open>PartialScalar\<close>.
\<close>

fun zero_cells :: "'s::zero world \<Rightarrow> addr \<Rightarrow> nat \<Rightarrow> error + 's world" where
  "zero_cells w p 0 = Inr w"
| "zero_cells w p (Suc n) =
     (case store_scalar w p 0 of
        Inl e \<Rightarrow> Inl e
      | Inr w' \<Rightarrow> zero_cells w' (Suc p) n)"

definition memset_zero :: "'s::zero world \<Rightarrow> addr \<Rightarrow> size_t \<Rightarrow> size_t \<Rightarrow> error + 's world" where
  "memset_zero w p nbytes sz =
     (if unat nbytes mod unat sz \<noteq> 0 then Inl PartialScalar
      else zero_cells w p (unat nbytes div unat sz))"

section \<open>Default bodies of the virtual operations\<close>

text \<open>
  \<open>getInitConditions\<close>: \<open>num_vars\<close> is an \<open>int\<close>; in \<open>num_vars * sizeof(TacsScalar)\<close>
  it is converted to \<open>size_t\<close> (sign extension, \<open>scast\<close>) and the product is taken
  modulo \<open>2 ^ 64\<close>. \<open>sizeof(TacsScalar)\<close> is the first argument.
\<close>

definition getInitConditions ::
  "size_t \<Rightarrow> 's::zero world \<Rightarrow> c_int \<Rightarrow> addr \<Rightarrow> addr \<Rightarrow> addr \<Rightarrow> addr \<Rightarrow> error + 's world" where
  "getInitConditions sizeof_TacsScalar w elemIndex Xpts vars dvars ddvars =
     (let num_vars = getNumNodes (elem w) * getVarsPerNode (elem w);
          nbytes = scast num_vars * sizeof_TacsScalar
      in case memset_zero w vars nbytes sizeof_TacsScalar of
           Inl e \<Rightarrow> Inl e
         | Inr w1 \<Rightarrow>
             (case memset_zero w1 dvars nbytes sizeof_TacsScalar of
                Inl e \<Rightarrow> Inl e
              | Inr w2 \<Rightarrow> memset_zero w2 ddvars nbytes sizeof_TacsScalar))"

text \<open>\<open>computeEnergies\<close>: \<open>*Te = 0.0; *Pe = 0.0;\<close>\<close>

definition computeEnergies ::
  "'s::zero world \<Rightarrow> c_int \<Rightarrow> 't \<Rightarrow> addr \<Rightarrow> addr \<Rightarrow> addr \<Rightarrow> addr \<Rightarrow> addr \<Rightarrow> error + 's world" where
  "computeEnergies w elemIndex time Xpts vars dvars Te Pe =
     (case store_scalar w Te 0 of
        Inl e \<Rightarrow> Inl e
      | Inr w1 \<Rightarrow> store_scalar w1 Pe 0)"

text \<open>
  \<open>getMatVecDataSizes\<close>: \<open>*_data_size = 0; *_temp_size = 0;\<close>. The type of
  \<open>matType\<close>, \<open>ElementMatrixType\<close>, is declared outside this header and is a parameter.
\<close>

definition getMatVecDataSizes ::
  "'s world \<Rightarrow> 'm \<Rightarrow> c_int \<Rightarrow> addr \<Rightarrow> addr \<Rightarrow> error + 's world" where
  "getMatVecDataSizes w matType elemIndex data_size temp_size =
     (case store_int w data_size 0 of
        Inl e \<Rightarrow> Inl e
      | Inr w1 \<Rightarrow> store_int w1 temp_size 0)"

text \<open>\<open>addMatVecProduct\<close> has the empty body \<open>{}\<close>.\<close>

definition addMatVecProduct ::
  "'s world \<Rightarrow> 'm \<Rightarrow> c_int \<Rightarrow> addr \<Rightarrow> addr \<Rightarrow> addr \<Rightarrow> addr \<Rightarrow> 's world" where
  "addMatVecProduct w matType elemIndex data temp px py = w"

text \<open>
  \<open>evalPointQuantity\<close>: \<open>return 0;  // No quantities defined by default\<close>. The result
  is the returned \<open>int\<close> with the state after the call.
\<close>

definition evalPointQuantity ::
  "'s world \<Rightarrow> c_int \<Rightarrow> c_int \<Rightarrow> 't \<Rightarrow> c_int \<Rightarrow> addr \<Rightarrow> addr \<Rightarrow> addr \<Rightarrow> addr \<Rightarrow> addr
     \<Rightarrow> addr \<Rightarrow> addr \<Rightarrow> c_int \<times> 's world" where
  "evalPointQuantity w elemIndex quantityType time n pt Xpts vars dvars ddvars detXd quantity =
     (0, w)"

text \<open>The cells \<open>p[0]\<close>, ..., \<open>p[n - 1]\<close> of an array.\<close>

definition in_array :: "addr \<Rightarrow> nat \<Rightarrow> addr \<Rightarrow> bool" where
  "in_array p n a = (p \<le> a \<and> a < p + n)"

text \<open>The caller has allocated \<open>n\<close> scalars at \<open>p\<close>.\<close>

definition scalar_array :: "'s world \<Rightarrow> addr \<Rightarrow> nat \<Rightarrow> bool" where
  "scalar_array w p n = (\<forall>i<n. scalars w (p + i) \<noteq> None)"

text \<open>The state \<open>w\<close> with the \<open>n\<close> cells at each of \<open>vars\<close>, \<open>dvars\<close>, \<open>ddvars\<close> set to zero.\<close>

definition init_state :: "'s::zero world \<Rightarrow> addr \<Rightarrow> addr \<Rightarrow> addr \<Rightarrow> nat \<Rightarrow> 's world" where
  "init_state w vars dvars ddvars n =
     w\<lparr>scalars := (\<lambda>a. if in_array vars n a \<or> in_array dvars n a \<or> in_array ddvars n a
                        then Some 0 else scalars w a)\<rparr>"

text \<open>
  The number of scalars that each \<open>memset\<close> of \<open>getInitConditions\<close> covers:
  \<open>num_vars * sizeof(TacsScalar)\<close> bytes, in scalars.
\<close>

definition zeroed_count :: "size_t \<Rightarrow> TACSElement \<Rightarrow> nat" where
  "zeroed_count sizeof_TacsScalar e =
     unat (scast (getNumNodes e * getVarsPerNode e) * sizeof_TacsScalar)
       div unat sizeof_TacsScalar"

section \<open>A concrete call site\<close>

text \<open>
  An element of two nodes with one variable per node, and a caller whose memory holds
  \<open>Xpts\<close> at 0 (six coordinates), \<open>vars\<close> at 10, \<open>dvars\<close> at 20 and \<open>ddvars\<close> at 30
  (two scalars each), \<open>Te\<close> at 40, \<open>Pe\<close> at 41, \<open>detXd\<close> at 50 and \<open>quantity\<close> at
  51, and two \<open>int\<close> cells at 0 and 1, none of them zero.
\<close>

definition two_node :: formulation where
  "two_node = \<lparr>impl_getVarsPerNode = 1, impl_getNumNodes = 2\<rparr>"

definition caller_scalars :: "addr \<rightharpoonup> real" where
  "caller_scalars =
     map_of [(0, 1), (1, 2), (2, 3), (3, 4), (4, 5), (5, 6),
             (10, 11), (11, 12), (20, 21), (21, 22), (30, 31), (31, 32),
             (40, 41), (41, 42), (50, 7), (51, 52)]"

definition caller :: "real world" where
  "caller = \<lparr>elem = new_TACSElement two_node 3, scalars = caller_scalars,
              ints = map_of [(0, 5), (1, 6)]\<rparr>"

section \<open>Conversions and \<open>memset\<close>\<close>

lemma scast_nonneg:
  assumes "0 \<le> sint (n :: 32 word)" shows "unat (scast n :: 64 word) = unat n"
proof -
  have up: "sint (scast n :: 64 word) = sint n"
    by (rule sint_up_scast) (simp add: is_up)
  have lt: "sint n < 2 ^ 31" using sint_lt[of n] by simp
  have "uint n = take_bit 32 (sint n)" using uint_sint[of n] by simp
  also have "\<dots> = sint n" using assms lt by (simp add: take_bit_int_eq_self)
  finally have a: "uint n = sint n" .
  have "uint (scast n :: 64 word) = take_bit 64 (sint n)"
    using uint_sint[of "scast n :: 64 word"] up by simp
  also have "\<dots> = sint n" using assms lt by (simp add: take_bit_int_eq_self)
  finally have "uint (scast n :: 64 word) = uint n" using a by simp
  then show ?thesis by (metis nat_uint_eq)
qed

lemma in_array_0: "in_array p 0 a = False"
  by (simp add: in_array_def)

lemma nbytes_cells:
  assumes "0 \<le> sint (n :: 32 word)" and "0 < unat (sz :: 64 word)" and "unat n * unat sz < 2 ^ 64"
  shows "unat (scast n * sz) mod unat sz = 0 \<and> unat (scast n * sz) div unat sz = unat n"
proof -
  have "unat (scast n :: 64 word) * unat sz < 2 ^ LENGTH(64)"
    using assms by (simp add: scast_nonneg)
  then have "unat (scast n * sz) = unat (scast n :: 64 word) * unat sz"
    by (simp only: unat_mult_lem)
  then have "unat (scast n * sz) = unat n * unat sz"
    using assms(1) by (simp add: scast_nonneg)
  then show ?thesis using assms(2) by simp
qed

lemma zero_cells_ok:
  "\<forall>i<n. scalars w (p + i) \<noteq> None \<Longrightarrow>
   zero_cells w p n = Inr (w\<lparr>scalars := (\<lambda>a. if in_array p n a then Some 0 else scalars w a)\<rparr>)"
proof (induction n arbitrary: w p)
  case 0
  show ?case by (simp add: in_array_0)
next
  case (Suc n)
  from Suc.prems have a: "scalars w p \<noteq> None" by (metis add.right_neutral zero_less_Suc)
  then obtain v where v: "scalars w p = Some v" by auto
  let ?w1 = "w\<lparr>scalars := (scalars w)(p \<mapsto> 0)\<rparr>"
  have s: "store_scalar w p 0 = Inr ?w1" using v by (simp add: store_scalar_def)
  have "\<forall>i<n. scalars ?w1 (Suc p + i) \<noteq> None"
    using Suc.prems by auto
  from Suc.IH[OF this] have "zero_cells ?w1 (Suc p) n = Inr (?w1\<lparr>scalars := (\<lambda>a. if in_array (Suc p) n a then Some 0 else scalars ?w1 a)\<rparr>)" .
  then show ?case using s
    by (auto simp: in_array_def fun_eq_iff)
qed

lemma zero_cells_Inr:
  "zero_cells w p n = Inr w' \<Longrightarrow>
   w' = w\<lparr>scalars := (\<lambda>a. if in_array p n a then Some 0 else scalars w a)\<rparr>
   \<and> (\<forall>i<n. scalars w (p + i) \<noteq> None)"
proof (induction n arbitrary: w p)
  case 0
  then show ?case by (simp add: in_array_0)
next
  case (Suc n)
  then obtain w1 where s: "store_scalar w p 0 = Inr w1" and z: "zero_cells w1 (Suc p) n = Inr w'"
    by (auto split: sum.splits)
  from s have w1: "w1 = w\<lparr>scalars := (scalars w)(p \<mapsto> 0)\<rparr>" and al: "scalars w p \<noteq> None"
    by (auto simp: store_scalar_def split: option.splits)
  from Suc.IH[OF z] have w': "w' = w1\<lparr>scalars := (\<lambda>a. if in_array (Suc p) n a then Some 0 else scalars w1 a)\<rparr>"
    and al1: "\<forall>i<n. scalars w1 (Suc p + i) \<noteq> None" by auto
  have "\<forall>i<Suc n. scalars w (p + i) \<noteq> None"
  proof (intro allI impI)
    fix i assume "i < Suc n"
    show "scalars w (p + i) \<noteq> None"
    proof (cases i)
      case 0 then show ?thesis using al by simp
    next
      case (Suc j)
      then have "j < n" using \<open>i < Suc n\<close> by simp
      with al1 have "scalars w1 (Suc p + j) \<noteq> None" by blast
      then show ?thesis using Suc w1 by simp
    qed
  qed
  moreover have "w' = w\<lparr>scalars := (\<lambda>a. if in_array p (Suc n) a then Some 0 else scalars w a)\<rparr>"
    using w' w1 by (auto simp: in_array_def fun_eq_iff)
  ultimately show ?case by blast
qed

lemma memset_zero_Inr:
  assumes "memset_zero w p nbytes sz = Inr w'"
  shows "w' = w\<lparr>scalars := (\<lambda>a. if in_array p (unat nbytes div unat sz) a then Some 0 else scalars w a)\<rparr>"
    and "scalar_array w p (unat nbytes div unat sz)"
    and "unat nbytes mod unat sz = 0"
  using assms zero_cells_Inr[of w p "unat nbytes div unat sz" w']
  by (auto simp: memset_zero_def scalar_array_def split: if_splits)

lemma memset_zero_ok:
  assumes "unat nbytes mod unat sz = 0" and "scalar_array w p (unat nbytes div unat sz)"
  shows "memset_zero w p nbytes sz =
    Inr (w\<lparr>scalars := (\<lambda>a. if in_array p (unat nbytes div unat sz) a then Some 0 else scalars w a)\<rparr>)"
  using assms zero_cells_ok[of "unat nbytes div unat sz" w p]
  by (simp add: memset_zero_def scalar_array_def)

lemma scalar_array_zeroed:
  "scalar_array w q n \<Longrightarrow>
   scalar_array (w\<lparr>scalars := (\<lambda>a. if in_array p k a then Some 0 else scalars w a)\<rparr>) q n"
  by (simp add: scalar_array_def)

lemma getInitConditions_ok:
  assumes nn: "0 \<le> sint (getNumNodes (elem w) * getVarsPerNode (elem w))"
    and sz: "0 < unat sz"
    and nw: "unat (getNumNodes (elem w) * getVarsPerNode (elem w)) * unat sz < 2 ^ 64"
    and a1: "scalar_array w vars (unat (getNumNodes (elem w) * getVarsPerNode (elem w)))"
    and a2: "scalar_array w dvars (unat (getNumNodes (elem w) * getVarsPerNode (elem w)))"
    and a3: "scalar_array w ddvars (unat (getNumNodes (elem w) * getVarsPerNode (elem w)))"
  shows "getInitConditions sz w elemIndex Xpts vars dvars ddvars =
    Inr (init_state w vars dvars ddvars (unat (getNumNodes (elem w) * getVarsPerNode (elem w))))"
proof -
  let ?nv = "getNumNodes (elem w) * getVarsPerNode (elem w)"
  let ?nb = "scast ?nv * sz"
  let ?n = "unat ?nv"
  from nbytes_cells[OF nn sz nw] have m: "unat ?nb mod unat sz = 0" and d: "unat ?nb div unat sz = ?n"
    by simp_all
  let ?w1 = "w\<lparr>scalars := (\<lambda>a. if in_array vars ?n a then Some 0 else scalars w a)\<rparr>"
  let ?w2 = "?w1\<lparr>scalars := (\<lambda>a. if in_array dvars ?n a then Some 0 else scalars ?w1 a)\<rparr>"
  let ?w3 = "?w2\<lparr>scalars := (\<lambda>a. if in_array ddvars ?n a then Some 0 else scalars ?w2 a)\<rparr>"
  have s1: "memset_zero w vars ?nb sz = Inr ?w1"
    using memset_zero_ok[OF m, of w vars] a1 d by simp
  have "scalar_array ?w1 dvars ?n" using a2 by (rule scalar_array_zeroed)
  then have s2: "memset_zero ?w1 dvars ?nb sz = Inr ?w2"
    using memset_zero_ok[OF m, of ?w1 dvars] d by simp
  have "scalar_array ?w1 ddvars ?n" using a3 by (rule scalar_array_zeroed)
  then have "scalar_array ?w2 ddvars ?n" by (rule scalar_array_zeroed)
  then have s3: "memset_zero ?w2 ddvars ?nb sz = Inr ?w3"
    using memset_zero_ok[OF m, of ?w2 ddvars] d by simp
  have "getInitConditions sz w elemIndex Xpts vars dvars ddvars = Inr ?w3"
    unfolding getInitConditions_def Let_def by (simp only: s1 s2 s3 sum.case)
  moreover have "?w3 = init_state w vars dvars ddvars ?n"
    by (auto simp: init_state_def fun_eq_iff)
  ultimately show ?thesis by simp
qed

lemma store_scalar_ok:
  "scalars w p \<noteq> None \<Longrightarrow> store_scalar w p v = Inr (w\<lparr>scalars := (scalars w)(p \<mapsto> v)\<rparr>)"
  by (auto simp: store_scalar_def)

lemma store_scalar_Inr:
  "store_scalar w p v = Inr w' \<Longrightarrow> w' = w\<lparr>scalars := (scalars w)(p \<mapsto> v)\<rparr>"
  by (auto simp: store_scalar_def split: option.splits)

lemma store_int_ok:
  "ints w p \<noteq> None \<Longrightarrow> store_int w p v = Inr (w\<lparr>ints := (ints w)(p \<mapsto> v)\<rparr>)"
  by (auto simp: store_int_def)

lemma zeroed_count_eq:
  assumes "0 \<le> sint (getNumVariables e)" and "0 < unat sz"
    and "unat (getNumVariables e) * unat sz < 2 ^ 64"
  shows "zeroed_count sz e = unat (getNumVariables e)"
  using assms nbytes_cells[of "getNumNodes e * getVarsPerNode e" sz]
  by (simp add: zeroed_count_def getNumVariables_def)

lemma getInitConditions_written:
  assumes r: "getInitConditions sz w elemIndex Xpts vars dvars ddvars = Inr w'"
  shows "w' = init_state w vars dvars ddvars (zeroed_count sz (elem w))"
proof -
  let ?nb = "scast (getNumNodes (elem w) * getVarsPerNode (elem w)) * sz"
  from r obtain w1 w2 where s1: "memset_zero w vars ?nb sz = Inr w1"
    and s2: "memset_zero w1 dvars ?nb sz = Inr w2"
    and s3: "memset_zero w2 ddvars ?nb sz = Inr w'"
    by (auto simp: getInitConditions_def Let_def split: sum.splits)
  from memset_zero_Inr(1)[OF s1] memset_zero_Inr(1)[OF s2] memset_zero_Inr(1)[OF s3]
  show ?thesis by (auto simp: init_state_def zeroed_count_def fun_eq_iff)
qed

lemma computeEnergies_written:
  assumes "computeEnergies w elemIndex time Xpts vars dvars Te Pe = Inr w'"
  shows "w' = w\<lparr>scalars := (scalars w)(Te \<mapsto> 0, Pe \<mapsto> 0)\<rparr>"
proof -
  from assms obtain w1 where s1: "store_scalar w Te 0 = Inr w1"
    and s2: "store_scalar w1 Pe 0 = Inr w'"
    by (auto simp: computeEnergies_def split: sum.splits)
  show ?thesis using store_scalar_Inr[OF s1] store_scalar_Inr[OF s2] by simp
qed

section \<open>Facts about the call site\<close>

lemma caller_numVariables: "getNumVariables (elem caller) = 2"
  by (simp add: caller_def new_TACSElement_def two_node_def getNumVariables_def
      getNumNodes_def getVarsPerNode_def)

lemma caller_arrays:
  "scalar_array caller 10 2" "scalar_array caller 20 2" "scalar_array caller 30 2"
  by (simp_all add: scalar_array_def caller_def caller_scalars_def less_Suc_eq numeral_2_eq_2)

lemma caller_getInitConditions:
  "getInitConditions 8 caller 0 0 10 20 30 = Inr (init_state caller 10 20 30 2)"
  using getInitConditions_ok[of caller 8 10 20 30 0 0] caller_numVariables caller_arrays
  by (simp add: getNumVariables_def)

lemma caller_computeEnergies:
  "computeEnergies caller 0 (0::real) 0 10 20 40 41
     = Inr (caller\<lparr>scalars := caller_scalars(40 \<mapsto> 0, 41 \<mapsto> 0)\<rparr>)"
  by (simp add: computeEnergies_def store_scalar_def caller_def caller_scalars_def)

lemma caller_Xpts_array: "scalar_array caller 0 2"
  by (simp add: scalar_array_def caller_def caller_scalars_def less_Suc_eq numeral_2_eq_2)

lemma caller_getInitConditions_aliased:
  "getInitConditions 8 caller 0 0 0 20 30 = Inr (init_state caller 0 20 30 2)"
  using getInitConditions_ok[of caller 8 0 20 30 0 0] caller_numVariables caller_arrays
    caller_Xpts_array
  by (simp add: getNumVariables_def)

section \<open>Component number and dimensions\<close>

text \<open>
  C10. After \<open>setComponentNum(c)\<close>, \<open>getComponentNum()\<close> returns \<open>c\<close>;
  \<open>setComponentNum\<close> changes no other part of the element (putting the old component
  number back gives the element as it was, and \<open>fdOrder\<close> and the formulation are the
  same); an element constructed with the default argument has component number 0.
\<close>

theorem componentNum_set_get:
  "getComponentNum (setComponentNum e c) = c
   \<and> fdOrder (setComponentNum e c) = fdOrder e
   \<and> derived (setComponentNum e c) = derived e
   \<and> setComponentNum (setComponentNum e c) (componentNum e) = e
   \<and> getComponentNum (new_TACSElement_default f) = 0"
  by (simp add: getComponentNum_def setComponentNum_def new_TACSElement_default_def
      new_TACSElement_def)

text \<open>
  C1. \<open>getNumVariables()\<close> is \<open>getNumNodes() * getVarsPerNode()\<close> in \<open>int\<close>
  arithmetic, for every element: whatever values \<open>nn\<close> and \<open>vpn\<close> the formulation's
  accessors return, an element of that formulation has \<open>nn * vpn\<close> variables.
\<close>

theorem getNumVariables_product:
  "getNumVariables e = getNumNodes e * getVarsPerNode e
   \<and> getNumVariables
       (new_TACSElement \<lparr>impl_getVarsPerNode = vpn, impl_getNumNodes = nn\<rparr> c) = nn * vpn"
  by (simp add: getNumVariables_def getNumNodes_def getVarsPerNode_def new_TACSElement_def)

text \<open>
  Where the product of the two dimensions fits an \<open>int\<close>, the wrapped product is the
  integer product.
\<close>

lemma getNumVariables_sint:
  assumes "- (2 ^ 31) \<le> sint (getNumNodes e) * sint (getVarsPerNode e)"
    and "sint (getNumNodes e) * sint (getVarsPerNode e) < 2 ^ 31"
  shows "sint (getNumVariables e) = sint (getNumNodes e) * sint (getVarsPerNode e)"
  using assms
  by (simp add: getNumVariables_def sint_word_ariths signed_take_bit_int_eq_self)

text \<open>
  The finite-difference order of a constructed element is 2. The body of the default
  \<open>addJacobian\<close>, which would read it, is not part of the header.
\<close>

lemma fdOrder_default: "fdOrder (new_TACSElement f c) = 2 \<and> sint (fdOrder (new_TACSElement f c)) = 2"
  by (simp add: new_TACSElement_def)

section \<open>Multiplier index\<close>

text \<open>
  C8. The default \<open>getMultiplierIndex\<close> returns \<open>-1\<close>: the value is negative, and it
  differs from every index \<open>i\<close> with \<open>0 \<le> i\<close>, so "no multiplier" cannot be taken
  for a node index.
\<close>

theorem multiplier_none:
  "getMultiplierIndex e = - 1 \<and> sint (getMultiplierIndex e) < 0
   \<and> (0 \<le> sint i \<longrightarrow> getMultiplierIndex e \<noteq> i)"
  by (auto simp: getMultiplierIndex_def)

theorem multiplier_none_witness:
  "getMultiplierIndex (elem caller) = - 1 \<and> sint (getMultiplierIndex (elem caller)) < 0
   \<and> 0 \<le> sint (0 :: c_int) \<and> getMultiplierIndex (elem caller) \<noteq> 0"
  using multiplier_none[of "elem caller" 0]
  by simp

section \<open>Initial conditions\<close>

text \<open>
  C6. The default \<open>getInitConditions\<close> zeroes \<open>vars\<close>, \<open>dvars\<close> and \<open>ddvars\<close> over
  exactly \<open>n = getNumNodes() * getVarsPerNode()\<close> entries each: when the count is not
  negative, \<open>n * sizeof(TacsScalar)\<close> fits \<open>size_t\<close> and the caller has allocated
  \<open>n\<close> scalars at each of the three pointers, the call returns, every entry
  \<open>vars[i]\<close>, \<open>dvars[i]\<close>, \<open>ddvars[i]\<close> with \<open>i < n\<close> is zero afterwards, and every
  scalar outside these three ranges is as before.
\<close>

theorem getInitConditions_zero:
  assumes "n = unat (getNumVariables (elem w))"
    and "0 \<le> sint (getNumVariables (elem w))"
    and "0 < unat sizeof_TacsScalar"
    and "n * unat sizeof_TacsScalar < 2 ^ 64"
    and "scalar_array w vars n" and "scalar_array w dvars n" and "scalar_array w ddvars n"
  shows "\<exists>w'. getInitConditions sizeof_TacsScalar w elemIndex Xpts vars dvars ddvars = Inr w'
      \<and> (\<forall>i<n. scalars w' (vars + i) = Some 0 \<and> scalars w' (dvars + i) = Some 0
                \<and> scalars w' (ddvars + i) = Some 0)
      \<and> (\<forall>a. \<not> in_array vars n a \<and> \<not> in_array dvars n a \<and> \<not> in_array ddvars n a
              \<longrightarrow> scalars w' a = scalars w a)"
proof -
  have "getInitConditions sizeof_TacsScalar w elemIndex Xpts vars dvars ddvars =
      Inr (init_state w vars dvars ddvars n)"
    using assms getInitConditions_ok[of w sizeof_TacsScalar vars dvars ddvars elemIndex Xpts]
    by (simp add: getNumVariables_def)
  moreover have "\<forall>i<n. scalars (init_state w vars dvars ddvars n) (vars + i) = Some 0
      \<and> scalars (init_state w vars dvars ddvars n) (dvars + i) = Some 0
      \<and> scalars (init_state w vars dvars ddvars n) (ddvars + i) = Some 0"
    by (simp add: init_state_def in_array_def)
  moreover have "\<forall>a. \<not> in_array vars n a \<and> \<not> in_array dvars n a \<and> \<not> in_array ddvars n a
              \<longrightarrow> scalars (init_state w vars dvars ddvars n) a = scalars w a"
    by (simp add: init_state_def)
  ultimately show ?thesis by blast
qed

theorem getInitConditions_zero_witness:
  "getNumVariables (elem caller) = 2
   \<and> scalars caller 10 = Some 11 \<and> scalars caller 11 = Some 12
   \<and> scalars caller 20 = Some 21 \<and> scalars caller 21 = Some 22
   \<and> scalars caller 30 = Some 31 \<and> scalars caller 31 = Some 32
   \<and> (\<exists>w'. getInitConditions 8 caller 0 0 10 20 30 = Inr w'
      \<and> scalars w' 10 = Some 0 \<and> scalars w' 11 = Some 0
      \<and> scalars w' 20 = Some 0 \<and> scalars w' 21 = Some 0
      \<and> scalars w' 30 = Some 0 \<and> scalars w' 31 = Some 0
      \<and> scalars w' 0 = Some 1 \<and> scalars w' 12 = None \<and> scalars w' 40 = Some 41)"
proof -
  have h1: "(2::nat) = unat (getNumVariables (elem caller))"
    by (simp add: caller_numVariables)
  have h2: "0 \<le> sint (getNumVariables (elem caller))"
    by (simp add: caller_numVariables)
  have h3: "0 < unat (8 :: size_t)" by simp
  have h4: "(2::nat) * unat (8 :: size_t) < 2 ^ 64" by simp
  from getInitConditions_zero[OF h1 h2 h3 h4 caller_arrays, of 0 0]
  obtain w' where r: "getInitConditions 8 caller 0 0 10 20 30 = Inr w'"
    and z: "\<forall>i<2. scalars w' (10 + i) = Some 0 \<and> scalars w' (20 + i) = Some 0
                \<and> scalars w' (30 + i) = Some 0"
    and f: "\<forall>a. \<not> in_array 10 2 a \<and> \<not> in_array 20 2 a \<and> \<not> in_array 30 2 a
              \<longrightarrow> scalars w' a = scalars caller a"
    by blast
  from z have z0: "scalars w' 10 = Some 0 \<and> scalars w' 20 = Some 0 \<and> scalars w' 30 = Some 0"
    using allE[OF z, of 0] by simp
  from z have z1: "scalars w' 11 = Some 0 \<and> scalars w' 21 = Some 0 \<and> scalars w' 31 = Some 0"
    using allE[OF z, of 1] by simp
  have f0: "scalars w' 0 = Some 1" "scalars w' 12 = None" "scalars w' 40 = Some 41"
    using f by (simp_all add: in_array_def caller_def caller_scalars_def)
  have c: "scalars caller 10 = Some 11 \<and> scalars caller 11 = Some 12
   \<and> scalars caller 20 = Some 21 \<and> scalars caller 21 = Some 22
   \<and> scalars caller 30 = Some 31 \<and> scalars caller 31 = Some 32"
    by (simp add: caller_def caller_scalars_def)
  show ?thesis using caller_numVariables c r z0 z1 f0 by blast
qed

section \<open>Energies\<close>

text \<open>
  C7. The default \<open>computeEnergies\<close> sets both energies to zero: when \<open>Te\<close> and \<open>Pe\<close>
  point to scalars of the caller, the call returns and both cells hold 0 afterwards,
  whatever they held before and whatever \<open>elemIndex\<close>, \<open>time\<close>, \<open>Xpts\<close>, \<open>vars\<close> and
  \<open>dvars\<close> are.
\<close>

theorem computeEnergies_zero:
  assumes "scalars w Te \<noteq> None" and "scalars w Pe \<noteq> None"
  shows "\<exists>w'. computeEnergies w elemIndex time Xpts vars dvars Te Pe = Inr w'
           \<and> scalars w' Te = Some 0 \<and> scalars w' Pe = Some 0"
  using assms by (simp add: computeEnergies_def store_scalar_ok)

theorem computeEnergies_zero_witness:
  "scalars caller 40 \<noteq> None \<and> scalars caller 41 \<noteq> None
   \<and> scalars caller 40 \<noteq> Some 0 \<and> scalars caller 41 \<noteq> Some 0
   \<and> (\<exists>w'. computeEnergies caller 0 (0::real) 0 10 20 40 41 = Inr w'
           \<and> scalars w' 40 = Some 0 \<and> scalars w' 41 = Some 0)"
  using computeEnergies_zero[of caller 40 41 0 "0::real" 0 10 20]
  by (simp add: caller_def caller_scalars_def)

section \<open>Matrix-free product\<close>

text \<open>
  C5. By default the matrix-free product is unsupported: for every \<open>matType\<close> and
  \<open>elemIndex\<close>, \<open>getMatVecDataSizes\<close> stores 0 in both size cells (given that the two
  pointers are to \<open>int\<close> cells of the caller), and \<open>addMatVecProduct\<close> changes
  nothing, so every entry of \<open>py\<close> is as before for every \<open>px\<close>, a zero \<open>px\<close> included.
\<close>

theorem matVec_default:
  assumes "ints w data_size \<noteq> None" and "ints w temp_size \<noteq> None"
  shows "(\<exists>w'. getMatVecDataSizes w matType elemIndex data_size temp_size = Inr w'
            \<and> ints w' data_size = Some 0 \<and> ints w' temp_size = Some 0)
         \<and> addMatVecProduct w matType elemIndex' data temp px py = w
         \<and> scalars (addMatVecProduct w matType elemIndex' data temp px py) (py + i)
             = scalars w (py + i)"
  using assms by (simp add: getMatVecDataSizes_def store_int_ok addMatVecProduct_def)

theorem matVec_default_witness:
  "ints caller 0 \<noteq> None \<and> ints caller 1 \<noteq> None
   \<and> ((\<exists>w'. getMatVecDataSizes caller () 0 0 1 = Inr w'
            \<and> ints w' 0 = Some 0 \<and> ints w' 1 = Some 0)
         \<and> addMatVecProduct caller () 0 0 0 10 20 = caller
         \<and> scalars (addMatVecProduct caller () 0 0 0 10 20) (20 + 1) = scalars caller (20 + 1))"
  using matVec_default[of caller 0 1 "()" 0 0 0 0 10 20 1]
  by (simp add: caller_def)

section \<open>Point quantities\<close>

text \<open>
  C4, as amended. The default \<open>evalPointQuantity\<close> returns 0 for every
  \<open>quantityType\<close> and every other input, and writes nothing: the state after the call
  is the state before it, and in particular the cells \<open>detXd\<close> and \<open>quantity\<close> hold
  what they held.
\<close>

theorem evalPointQuantity_default:
  "fst (evalPointQuantity w elemIndex quantityType time n pt Xpts vars dvars ddvars
          detXd quantity) = 0
   \<and> snd (evalPointQuantity w elemIndex quantityType time n pt Xpts vars dvars ddvars
          detXd quantity) = w
   \<and> scalars (snd (evalPointQuantity w elemIndex quantityType time n pt Xpts vars dvars
          ddvars detXd quantity)) detXd = scalars w detXd
   \<and> scalars (snd (evalPointQuantity w elemIndex quantityType time n pt Xpts vars dvars
          ddvars detXd quantity)) quantity = scalars w quantity"
  by (simp add: evalPointQuantity_def)

text \<open>
  C4 as stated says that the call also writes the Jacobian determinant to \<open>detXd\<close>.
  At the concrete call site the call returns 0 and \<open>detXd\<close> still holds the 7 it held
  before; had it held 9, it would hold 9: the cell is not written.
\<close>

theorem evalPointQuantity_detXd_not_written:
  "fst (evalPointQuantity caller 0 0 (0::real) 0 0 0 10 20 30 50 51) = 0
   \<and> scalars (snd (evalPointQuantity caller 0 0 (0::real) 0 0 0 10 20 30 50 51)) 50 = Some 7
   \<and> scalars (snd (evalPointQuantity (caller\<lparr>scalars := caller_scalars(50 \<mapsto> 9)\<rparr>)
        0 0 (0::real) 0 0 0 10 20 30 50 51)) 50 = Some 9"
  by (simp add: evalPointQuantity_def caller_def caller_scalars_def)

section \<open>Frame of the default evaluation operations\<close>

text \<open>
  C9, as amended. The default evaluation operations leave the element and every part
  of the caller's memory other than their output buffers as they were. A
  \<open>getInitConditions\<close> that returns leaves the element (\<open>componentNum\<close>, \<open>fdOrder\<close>,
  formulation), the \<open>int\<close> cells and every scalar outside the entries of \<open>vars\<close>,
  \<open>dvars\<close> and \<open>ddvars\<close> that its three \<open>memset\<close> calls cover as they were, and it
  covers \<open>getNumVariables()\<close> entries of each when that count is not negative and
  its byte count fits \<open>size_t\<close>. A \<open>computeEnergies\<close> that returns leaves the element,
  the \<open>int\<close> cells and every scalar other than \<open>*Te\<close> and \<open>*Pe\<close> as they were.
  \<open>addMatVecProduct\<close> and \<open>evalPointQuantity\<close> leave the whole state as it was. Each
  operation stands under its own condition only. An entry of \<open>Xpts\<close>, \<open>vars\<close>,
  \<open>dvars\<close> or \<open>ddvars\<close> is therefore unchanged exactly where it is not also a cell of
  an output buffer of the same call.
\<close>

theorem evaluation_frame:
  "(getInitConditions sizeof_TacsScalar w elemIndex Xpts vars dvars ddvars = Inr wi \<longrightarrow>
      elem wi = elem w \<and> ints wi = ints w
      \<and> (\<forall>a. \<not> in_array vars (zeroed_count sizeof_TacsScalar (elem w)) a
              \<and> \<not> in_array dvars (zeroed_count sizeof_TacsScalar (elem w)) a
              \<and> \<not> in_array ddvars (zeroed_count sizeof_TacsScalar (elem w)) a
            \<longrightarrow> scalars wi a = scalars w a))
   \<and> (0 \<le> sint (getNumVariables (elem w)) \<and> 0 < unat sizeof_TacsScalar
        \<and> unat (getNumVariables (elem w)) * unat sizeof_TacsScalar < 2 ^ 64 \<longrightarrow>
      zeroed_count sizeof_TacsScalar (elem w) = unat (getNumVariables (elem w)))
   \<and> (computeEnergies w elemIndexE time XptsE varsE dvarsE Te Pe = Inr we \<longrightarrow>
      elem we = elem w \<and> ints we = ints w
      \<and> (\<forall>a. a \<noteq> Te \<and> a \<noteq> Pe \<longrightarrow> scalars we a = scalars w a))
   \<and> addMatVecProduct w matType elemIndexM data temp px py = w
   \<and> snd (evalPointQuantity w elemIndexQ quantityType timeQ q pt XptsQ varsQ dvarsQ ddvarsQ
            detXd quantity) = w"
proof (intro conjI impI)
  assume r: "getInitConditions sizeof_TacsScalar w elemIndex Xpts vars dvars ddvars = Inr wi"
  note e = getInitConditions_written[OF r]
  show "elem wi = elem w" using e by (simp add: init_state_def)
  show "ints wi = ints w" using e by (simp add: init_state_def)
  show "\<forall>a. \<not> in_array vars (zeroed_count sizeof_TacsScalar (elem w)) a
              \<and> \<not> in_array dvars (zeroed_count sizeof_TacsScalar (elem w)) a
              \<and> \<not> in_array ddvars (zeroed_count sizeof_TacsScalar (elem w)) a
            \<longrightarrow> scalars wi a = scalars w a"
    using e by (simp add: init_state_def)
next
  assume "0 \<le> sint (getNumVariables (elem w)) \<and> 0 < unat sizeof_TacsScalar
        \<and> unat (getNumVariables (elem w)) * unat sizeof_TacsScalar < 2 ^ 64"
  then show "zeroed_count sizeof_TacsScalar (elem w) = unat (getNumVariables (elem w))"
    by (simp add: zeroed_count_eq)
next
  assume r: "computeEnergies w elemIndexE time XptsE varsE dvarsE Te Pe = Inr we"
  note e = computeEnergies_written[OF r]
  show "elem we = elem w" using e by simp
  show "ints we = ints w" using e by simp
  show "\<forall>a. a \<noteq> Te \<and> a \<noteq> Pe \<longrightarrow> scalars we a = scalars w a" using e by simp
next
  show "addMatVecProduct w matType elemIndexM data temp px py = w"
    by (simp add: addMatVecProduct_def)
  show "snd (evalPointQuantity w elemIndexQ quantityType timeQ q pt XptsQ varsQ dvarsQ ddvarsQ
            detXd quantity) = w"
    by (simp add: evalPointQuantity_def)
qed

theorem evaluation_frame_witness:
  "getInitConditions 8 caller 0 0 10 20 30 = Inr (init_state caller 10 20 30 2)
   \<and> 0 \<le> sint (getNumVariables (elem caller)) \<and> 0 < unat (8 :: size_t)
   \<and> unat (getNumVariables (elem caller)) * unat (8 :: size_t) < 2 ^ 64
   \<and> computeEnergies caller 0 (0::real) 0 10 20 40 41
         = Inr (caller\<lparr>scalars := caller_scalars(40 \<mapsto> 0, 41 \<mapsto> 0)\<rparr>)
   \<and> zeroed_count 8 (elem caller) = 2
   \<and> elem (init_state caller 10 20 30 2) = elem caller
   \<and> ints (init_state caller 10 20 30 2) = ints caller
   \<and> scalars (init_state caller 10 20 30 2) 0 = scalars caller 0
   \<and> scalars (init_state caller 10 20 30 2) 5 = scalars caller 5
   \<and> elem (caller\<lparr>scalars := caller_scalars(40 \<mapsto> 0, 41 \<mapsto> 0)\<rparr>) = elem caller
   \<and> ints (caller\<lparr>scalars := caller_scalars(40 \<mapsto> 0, 41 \<mapsto> 0)\<rparr>) = ints caller
   \<and> scalars (caller\<lparr>scalars := caller_scalars(40 \<mapsto> 0, 41 \<mapsto> 0)\<rparr>) 10 = scalars caller 10
   \<and> scalars (caller\<lparr>scalars := caller_scalars(40 \<mapsto> 0, 41 \<mapsto> 0)\<rparr>) 21 = scalars caller 21
   \<and> addMatVecProduct caller () 0 0 0 10 20 = caller
   \<and> snd (evalPointQuantity caller 0 0 (0::real) 0 0 0 10 20 30 50 51) = caller"
proof -
  have h1: "getInitConditions 8 caller 0 0 10 20 30 = Inr (init_state caller 10 20 30 2)"
    by (rule caller_getInitConditions)
  have h2: "0 \<le> sint (getNumVariables (elem caller)) \<and> 0 < unat (8 :: size_t)
      \<and> unat (getNumVariables (elem caller)) * unat (8 :: size_t) < 2 ^ 64"
    by (simp add: caller_numVariables)
  have h3: "computeEnergies caller 0 (0::real) 0 10 20 40 41
         = Inr (caller\<lparr>scalars := caller_scalars(40 \<mapsto> 0, 41 \<mapsto> 0)\<rparr>)"
    by (rule caller_computeEnergies)
  note c = evaluation_frame[where w = caller and sizeof_TacsScalar = 8 and elemIndex = 0
      and Xpts = 0 and vars = 10 and dvars = 20 and ddvars = 30
      and wi = "init_state caller 10 20 30 2"
      and elemIndexE = 0 and time = "0::real" and XptsE = 0 and varsE = 10 and dvarsE = 20
      and Te = 40 and Pe = 41
      and we = "caller\<lparr>scalars := caller_scalars(40 \<mapsto> 0, 41 \<mapsto> 0)\<rparr>"
      and matType = "()" and elemIndexM = 0 and data = 0 and temp = 0 and px = 10 and py = 20
      and elemIndexQ = 0 and quantityType = 0 and timeQ = "0::real" and q = 0 and pt = 0
      and XptsQ = 0 and varsQ = 10 and dvarsQ = 20 and ddvarsQ = 30
      and detXd = 50 and quantity = 51]
  from c h2 have k: "zeroed_count 8 (elem caller) = 2"
    by (simp add: caller_numVariables)
  from c h1 have a1: "elem (init_state caller 10 20 30 2) = elem caller"
    "ints (init_state caller 10 20 30 2) = ints caller" by blast+
  from c h1 have f1: "\<forall>a. \<not> in_array 10 (zeroed_count 8 (elem caller)) a
      \<and> \<not> in_array 20 (zeroed_count 8 (elem caller)) a
      \<and> \<not> in_array 30 (zeroed_count 8 (elem caller)) a
      \<longrightarrow> scalars (init_state caller 10 20 30 2) a = scalars caller a"
    by blast
  have g1: "scalars (init_state caller 10 20 30 2) 0 = scalars caller 0"
    "scalars (init_state caller 10 20 30 2) 5 = scalars caller 5"
    using f1 k by (simp_all add: in_array_def)
  from c h3 have a2: "elem (caller\<lparr>scalars := caller_scalars(40 \<mapsto> 0, 41 \<mapsto> 0)\<rparr>) = elem caller"
    "ints (caller\<lparr>scalars := caller_scalars(40 \<mapsto> 0, 41 \<mapsto> 0)\<rparr>) = ints caller" by blast+
  from c h3 have f2: "\<forall>a. a \<noteq> 40 \<and> a \<noteq> 41
      \<longrightarrow> scalars (caller\<lparr>scalars := caller_scalars(40 \<mapsto> 0, 41 \<mapsto> 0)\<rparr>) a = scalars caller a"
    by blast
  have g2: "scalars (caller\<lparr>scalars := caller_scalars(40 \<mapsto> 0, 41 \<mapsto> 0)\<rparr>) 10 = scalars caller 10"
    "scalars (caller\<lparr>scalars := caller_scalars(40 \<mapsto> 0, 41 \<mapsto> 0)\<rparr>) 21 = scalars caller 21"
    using f2 by simp_all
  from c have a3: "addMatVecProduct caller () 0 0 0 10 20 = caller"
    "snd (evalPointQuantity caller 0 0 (0::real) 0 0 0 10 20 30 50 51) = caller" by blast+
  show ?thesis using h1 h2 h3 k a1 g1 a2 g2 a3 by blast
qed

text \<open>
  C9 as stated says that the input arrays are never modified. \<open>const\<close> does not keep
  a caller from passing the same memory as an output: with \<open>Te = vars\<close> and
  \<open>Pe = dvars\<close>, \<open>computeEnergies\<close> returns with \<open>vars[0]\<close> changed from 11 to 0 and
  \<open>dvars[0]\<close> from 21 to 0, and with \<open>vars = Xpts\<close>, \<open>getInitConditions\<close> returns
  with \<open>Xpts[0]\<close> changed from 1 to 0.
\<close>

theorem const_inputs_overwritten:
  "computeEnergies caller 0 (0::real) 0 10 20 10 20
     = Inr (caller\<lparr>scalars := caller_scalars(10 \<mapsto> 0, 20 \<mapsto> 0)\<rparr>)
   \<and> scalars caller 10 = Some 11
   \<and> scalars (caller\<lparr>scalars := caller_scalars(10 \<mapsto> 0, 20 \<mapsto> 0)\<rparr>) 10 = Some 0
   \<and> scalars caller 20 = Some 21
   \<and> scalars (caller\<lparr>scalars := caller_scalars(10 \<mapsto> 0, 20 \<mapsto> 0)\<rparr>) 20 = Some 0
   \<and> getInitConditions 8 caller 0 0 0 20 30 = Inr (init_state caller 0 20 30 2)
   \<and> scalars caller 0 = Some 1
   \<and> scalars (init_state caller 0 20 30 2) 0 = Some 0"
proof -
  have "computeEnergies caller 0 (0::real) 0 10 20 10 20
     = Inr (caller\<lparr>scalars := caller_scalars(10 \<mapsto> 0, 20 \<mapsto> 0)\<rparr>)"
    by (simp add: computeEnergies_def store_scalar_def caller_def caller_scalars_def)
  moreover have "scalars caller 10 = Some 11 \<and> scalars caller 20 = Some 21
      \<and> scalars caller 0 = Some 1"
    by (simp add: caller_def caller_scalars_def)
  moreover have "scalars (caller\<lparr>scalars := caller_scalars(10 \<mapsto> 0, 20 \<mapsto> 0)\<rparr>) 10 = Some 0
      \<and> scalars (caller\<lparr>scalars := caller_scalars(10 \<mapsto> 0, 20 \<mapsto> 0)\<rparr>) 20 = Some 0"
    by simp
  moreover have "scalars (init_state caller 0 20 30 2) 0 = Some 0"
    by (simp add: init_state_def in_array_def)
  ultimately show ?thesis using caller_getInitConditions_aliased by blast
qed

end
